theory Spec2Isabelle
  imports Main "HOL-Library.Multiset"
begin

section \<open>Data model of the project page\<close>

text \<open>
  The page component \<^verbatim>\<open>ProjectPage\<close> of
  \<^verbatim>\<open>src/app/(dashboard)/projects/[projectId]/page.tsx\<close> keeps one snapshot
  \<^verbatim>\<open>ProjectData\<close> in React state and changes it from asynchronous handlers
  that talk to a remote API through \<^verbatim>\<open>apiClient\<close>.

  Modelled from the spec: the declarations of \<^verbatim>\<open>Project\<close>, \<^verbatim>\<open>Chat\<close>,
  \<^verbatim>\<open>ProjectDocument\<close> and \<^verbatim>\<open>ProjectSettings\<close> live in \<^verbatim>\<open>@/lib/types\<close>,
  which is not part of the source at hand. The page reads only \<^verbatim>\<open>chat.id\<close> and
  \<^verbatim>\<open>doc.id\<close>; the remaining fields follow the data model of the specification
  (a conversation is \<open>{id, title, projectId}\<close>, a document is
  \<open>{id, sourceType, status}\<close>, the settings are one shallow record of named options).
\<close>

datatype Project = Project (project_id: string)

record Chat =
  chat_id :: string
  chat_title :: string
  chat_project_id :: string

datatype source_type = Uploaded_file | Url_sourced

record ProjectDocument =
  doc_id :: string
  doc_source_type :: source_type
  doc_status :: string

text \<open>A JavaScript object used as a shallow record of named options: a map from keys to values.\<close>

type_synonym ProjectSettings = "string \<rightharpoonup> string"

text \<open>The interface \<^verbatim>\<open>ProjectData\<close> (lines 20 to 25).\<close>

record ProjectData =
  project :: "Project option"
  chats :: "Chat list"
  documents :: "ProjectDocument list"
  settings :: "ProjectSettings option"

text \<open>The browser's \<^verbatim>\<open>File\<close>: the page reads its name, size and type and hands it on whole.\<close>

record File =
  file_name :: string
  file_size :: nat
  file_type :: string
  file_bytes :: string

text \<open>
  The React state of the component that the handlers write (lines 32 to 42); the two
  pure user-interface states (\<^verbatim>\<open>activeTab\<close>, \<^verbatim>\<open>selectedDocumentId\<close>) are not
  touched by any handler modelled here.
\<close>

record page_state =
  data :: ProjectData
  loading :: bool
  error :: "string option"
  isCreatingChat :: bool

text \<open>The initial values of the \<^verbatim>\<open>useState\<close> calls.\<close>

definition initial_data :: ProjectData where
  "initial_data = \<lparr>project = None, chats = [], documents = [], settings = None\<rparr>"

definition initial_state :: page_state where
  "initial_state = \<lparr>data = initial_data, loading = True, error = None, isCreatingChat = False\<rparr>"

section \<open>Effects\<close>

text \<open>
  A rejected promise or a thrown exception is a value \<open>Inl e\<close>; the payload
  \<^verbatim>\<open>res.data\<close> of a resolved call is \<open>Inr v\<close>. The answers of the remote side are
  parameters of each handler.
\<close>

datatype failure = Rejected string

type_synonym 'a response = "failure + 'a"

text \<open>\<^verbatim>\<open>getToken()\<close> resolves to a string or to null.\<close>

type_synonym token = "string option"

datatype body =
  Chat_body string string
  | Upload_url_body string nat string
  | Confirm_body string
  | Url_body string
  | Settings_body ProjectSettings

datatype remote_call =
  Get string token
  | Post string body token
  | Put string body token
  | Delete string token
  | UploadToS3 string File

datatype effect =
  GetToken
  | Call remote_call
  | Toast_error string
  | Toast_success string
  | Console_warn string

text \<open>
  A handler is the list of the steps it performs, in order. \<open>SetData f\<close> is
  \<^verbatim>\<open>setData((prev) => ...)\<close>: the updater is applied to the snapshot current when the
  step runs, and returns the new snapshot together with what it wrote to the console.
  \<open>Uncaught e\<close> is an exception that leaves the handler.
\<close>

datatype action =
  SetData "ProjectData \<Rightarrow> ProjectData \<times> string list"
  | SetLoading bool
  | SetError "string option"
  | SetIsCreatingChat bool
  | Eff effect
  | Uncaught failure

fun apply_action :: "action \<Rightarrow> page_state \<Rightarrow> page_state" where
  "apply_action (SetData f) st = st\<lparr>data := fst (f (data st))\<rparr>"
| "apply_action (SetLoading b) st = st\<lparr>loading := b\<rparr>"
| "apply_action (SetError e) st = st\<lparr>error := e\<rparr>"
| "apply_action (SetIsCreatingChat b) st = st\<lparr>isCreatingChat := b\<rparr>"
| "apply_action (Eff e) st = st"
| "apply_action (Uncaught e) st = st"

text \<open>The state after all steps, and every state an observer can see on the way.\<close>

fun run :: "action list \<Rightarrow> page_state \<Rightarrow> page_state" where
  "run [] st = st"
| "run (a # as) st = run as (apply_action a st)"

fun states_of :: "action list \<Rightarrow> page_state \<Rightarrow> page_state list" where
  "states_of [] st = [st]"
| "states_of (a # as) st = st # states_of as (apply_action a st)"

text \<open>What the steps do to the outside world, in order.\<close>

fun effects_of :: "action list \<Rightarrow> page_state \<Rightarrow> effect list" where
  "effects_of [] st = []"
| "effects_of (SetData f # as) st =
     map Console_warn (snd (f (data st))) @ effects_of as (apply_action (SetData f) st)"
| "effects_of (Eff e # as) st = e # effects_of as st"
| "effects_of (a # as) st = effects_of as (apply_action a st)"

fun is_call :: "effect \<Rightarrow> bool" where
  "is_call GetToken = True"
| "is_call (Call c) = True"
| "is_call e = False"

definition calls_of :: "action list \<Rightarrow> page_state \<Rightarrow> effect list" where
  "calls_of as st = filter is_call (effects_of as st)"

text \<open>A step that tells the user, the error flag or the caller that something failed.\<close>

fun is_failure_report :: "action \<Rightarrow> bool" where
  "is_failure_report (Eff (Toast_error m)) = True"
| "is_failure_report (SetError (Some m)) = True"
| "is_failure_report (Uncaught e) = True"
| "is_failure_report a = False"

definition failure_reports :: "action list \<Rightarrow> action list" where
  "failure_reports as = filter is_failure_report as"

text \<open>An updater that writes nothing to the console.\<close>

definition quiet :: "(ProjectData \<Rightarrow> ProjectData) \<Rightarrow> ProjectData \<Rightarrow> ProjectData \<times> string list" where
  "quiet f prev = (f prev, [])"

text \<open>
  \<^verbatim>\<open>!userId\<close>: the identity is null, undefined or the empty string.
\<close>

fun absent :: "string option \<Rightarrow> bool" where
  "absent None = True"
| "absent (Some u) = (u = [])"

section \<open>Loading the four resources\<close>

text \<open>The \<^verbatim>\<open>catch\<close> block of \<^verbatim>\<open>loadAllData\<close> (lines 78 to 80).\<close>

definition load_failed :: "action list" where
  "load_failed = [SetError (Some ''Failed to fetch data''), Eff (Toast_error ''Failed to fetch data'')]"

text \<open>
  \<^verbatim>\<open>loadAllData\<close> (lines 55 to 84). The four \<^verbatim>\<open>apiClient.get\<close> calls are all issued
  before \<^verbatim>\<open>Promise.all\<close> is awaited; \<^verbatim>\<open>Promise.all\<close> rejects as soon as one of them
  rejects, and \<^verbatim>\<open>setData\<close> is reached only when all four resolved.
\<close>

definition loadAllData ::
  "string option \<Rightarrow> string \<Rightarrow> token response \<Rightarrow> Project option response \<Rightarrow> Chat list response \<Rightarrow>
   ProjectDocument list response \<Rightarrow> ProjectSettings option response \<Rightarrow> action list" where
  "loadAllData userId projectId tokenRes projectRes chatsRes documentsRes settingsRes =
     (if absent userId then []
      else
        [SetLoading True, SetError None, Eff GetToken] @
        (case tokenRes of
           Inl e \<Rightarrow> load_failed
         | Inr token \<Rightarrow>
             [Eff (Call (Get (''/api/projects/'' @ projectId) token)),
              Eff (Call (Get (''/api/projects/'' @ projectId @ ''/chats'') token)),
              Eff (Call (Get (''/api/projects/'' @ projectId @ ''/files'') token)),
              Eff (Call (Get (''/api/projects/'' @ projectId @ ''/settings'') token))] @
             (case projectRes of
                Inl e \<Rightarrow> load_failed
              | Inr p \<Rightarrow>
                  (case chatsRes of
                     Inl e \<Rightarrow> load_failed
                   | Inr c \<Rightarrow>
                       (case documentsRes of
                          Inl e \<Rightarrow> load_failed
                        | Inr d \<Rightarrow>
                            (case settingsRes of
                               Inl e \<Rightarrow> load_failed
                             | Inr s \<Rightarrow>
                                 [SetData (quiet (\<lambda>prev.
                                    \<lparr>project = p, chats = c, documents = d, settings = s\<rparr>))]))))) @
        [SetLoading False])"

section \<open>Conversations\<close>

text \<open>
  The digits of a number as the template literal \<^verbatim>\<open>`Chat #${chatNumber}`\<close> prints
  them: decimal, without leading zeros.
\<close>

fun string_of_nat :: "nat \<Rightarrow> string" where
  "string_of_nat n =
     (if n < 10 then [''0123456789'' ! n]
      else string_of_nat (n div 10) @ [''0123456789'' ! (n mod 10)])"

declare string_of_nat.simps [simp del]

text \<open>The updater of line 112: \<^verbatim>\<open>{...prev, chats: [savedChat, ...prev.chats]}\<close>.\<close>

definition prepend_chat :: "Chat \<Rightarrow> ProjectData \<Rightarrow> ProjectData" where
  "prepend_chat savedChat prev = prev\<lparr>chats := savedChat # chats prev\<rparr>"

text \<open>
  \<^verbatim>\<open>handleCreateNewChat\<close> (lines 90 to 123); \<open>now\<close> is the value of
  \<^verbatim>\<open>Date.now()\<close>.
\<close>

definition handleCreateNewChat ::
  "string option \<Rightarrow> string \<Rightarrow> nat \<Rightarrow> token response \<Rightarrow> Chat response \<Rightarrow> action list" where
  "handleCreateNewChat userId projectId now tokenRes postRes =
     (if absent userId then []
      else
        [SetIsCreatingChat True, Eff GetToken] @
        (case tokenRes of
           Inl e \<Rightarrow> [Eff (Toast_error ''Failed to create chat'')]
         | Inr token \<Rightarrow>
             Eff (Call (Post ''/api/chats''
                    (Chat_body (''Chat #'' @ string_of_nat (now mod 10000)) projectId) token)) #
             (case postRes of
                Inl e \<Rightarrow> [Eff (Toast_error ''Failed to create chat'')]
              | Inr savedChat \<Rightarrow>
                  [SetData (quiet (prepend_chat savedChat)),
                   Eff (Toast_success ''Chat Created successfully'')])) @
        [SetIsCreatingChat False])"

text \<open>
  The updater of line 134:
  \<^verbatim>\<open>{...prev, chats: prev.chats.filter((chat) => chat.id !== chatId)}\<close>.
\<close>

definition remove_chat :: "string \<Rightarrow> ProjectData \<Rightarrow> ProjectData" where
  "remove_chat chatId prev = prev\<lparr>chats := filter (\<lambda>chat. chat_id chat \<noteq> chatId) (chats prev)\<rparr>"

text \<open>\<^verbatim>\<open>handleDeleteChat\<close> (lines 125 to 143).\<close>

definition handleDeleteChat ::
  "string option \<Rightarrow> string \<Rightarrow> token response \<Rightarrow> unit response \<Rightarrow> action list" where
  "handleDeleteChat userId chatId tokenRes deleteRes =
     (if absent userId then []
      else
        Eff GetToken #
        (case tokenRes of
           Inl e \<Rightarrow> [Eff (Toast_error ''Failed to delete chat'')]
         | Inr token \<Rightarrow>
             Eff (Call (Delete (''/api/chats/'' @ chatId) token)) #
             (case deleteRes of
                Inl e \<Rightarrow> [Eff (Toast_error ''Failed to delete chat'')]
              | Inr u \<Rightarrow>
                  [SetData (quiet (remove_chat chatId)),
                   Eff (Toast_success ''Chat deleted successfully'')])))"

section \<open>Documents\<close>

text \<open>
  What the remote side answers to the three awaited calls of one file: the payload
  \<^verbatim>\<open>{upload_url, s3_key}\<close> of the reservation, the completion of the transfer, and
  the document returned by the confirmation.
\<close>

record item_answers =
  reserve :: "(string \<times> string) response"
  transfer :: "unit response"
  confirm :: "ProjectDocument response"

text \<open>
  Where the asynchronous function of one file (lines 158 to 189) is suspended: at the
  first, second or third \<^verbatim>\<open>await\<close> (the second remembers \<^verbatim>\<open>s3_key\<close>), or finished.
  The \<^verbatim>\<open>catch\<close> swallows every failure, so the promise of a file always fulfils.
\<close>

datatype stage = Reserving | Transferring string | Confirming | Settled

text \<open>
  The three mutable things the pipelines share: where each one stands, the array
  \<^verbatim>\<open>uploadedDocuments\<close>, and the effects emitted so far.
\<close>

record upload_state =
  stages :: "stage list"
  uploadedDocuments :: "ProjectDocument list"
  emitted :: "effect list"

definition upload_failed :: "File \<Rightarrow> effect list" where
  "upload_failed file = [Toast_error (''Failed to upload '' @ file_name file)]"

text \<open>
  One file's function resumed with the answer it is waiting for: the new stage, the
  effects emitted until the next \<^verbatim>\<open>await\<close>, and what is pushed onto
  \<^verbatim>\<open>uploadedDocuments\<close>.
\<close>

fun resume ::
  "string \<Rightarrow> token \<Rightarrow> File \<Rightarrow> item_answers \<Rightarrow> stage \<Rightarrow> stage \<times> effect list \<times> ProjectDocument list" where
  "resume projectId token file a Reserving =
     (case reserve a of
        Inl e \<Rightarrow> (Settled, upload_failed file, [])
      | Inr (upload_url, s3_key) \<Rightarrow>
          (Transferring s3_key, [Call (UploadToS3 upload_url file)], []))"
| "resume projectId token file a (Transferring s3_key) =
     (case transfer a of
        Inl e \<Rightarrow> (Settled, upload_failed file, [])
      | Inr u \<Rightarrow>
          (Confirming,
           [Call (Post (''/api/projects/'' @ projectId @ ''/files/confirm'') (Confirm_body s3_key) token)],
           []))"
| "resume projectId token file a Confirming =
     (case confirm a of
        Inl e \<Rightarrow> (Settled, upload_failed file, [])
      | Inr updatedDocument \<Rightarrow> (Settled, [], [updatedDocument]))"
| "resume projectId token file a Settled = (Settled, [], [])"

text \<open>
  The answer awaited by file \<open>i\<close> of the batch arrives. An index outside the batch
  names no pipeline and changes nothing.
\<close>

definition deliver ::
  "string \<Rightarrow> token \<Rightarrow> (File \<times> item_answers) list \<Rightarrow> nat \<Rightarrow> upload_state \<Rightarrow> upload_state" where
  "deliver projectId token items i us =
     (if i < length items \<and> i < length (stages us) then
        (case resume projectId token (fst (items ! i)) (snd (items ! i)) (stages us ! i) of
           (stg, effs, docs) \<Rightarrow>
             \<lparr>stages = (stages us)[i := stg],
              uploadedDocuments = uploadedDocuments us @ docs,
              emitted = emitted us @ effs\<rparr>)
      else us)"

text \<open>
  \<^verbatim>\<open>files.map(async (file) => ...)\<close> runs every function up to its first
  \<^verbatim>\<open>await\<close>: the reservations are requested in the order of the files.
\<close>

definition reserve_call :: "string \<Rightarrow> token \<Rightarrow> File \<Rightarrow> effect" where
  "reserve_call projectId token file =
     Call (Post (''/api/projects/'' @ projectId @ ''/files/upload-url'')
             (Upload_url_body (file_name file) (file_size file) (file_type file)) token)"

definition start :: "string \<Rightarrow> token \<Rightarrow> (File \<times> item_answers) list \<Rightarrow> upload_state" where
  "start projectId token items =
     \<lparr>stages = map (\<lambda>item. Reserving) items,
      uploadedDocuments = [],
      emitted = map (\<lambda>item. reserve_call projectId token (fst item)) items\<rparr>"

text \<open>
  The pipelines run interleaved: \<open>schedule\<close> lists, in the order of arrival, the file
  whose awaited answer arrives next.
\<close>

definition pipelines ::
  "string \<Rightarrow> token \<Rightarrow> (File \<times> item_answers) list \<Rightarrow> nat list \<Rightarrow> upload_state" where
  "pipelines projectId token items schedule =
     fold (deliver projectId token items) schedule (start projectId token items)"

text \<open>
  The updater of line 196:
  \<^verbatim>\<open>{...prev, documents: [...uploadedDocuments, ...prev.documents]}\<close>.
\<close>

definition prepend_documents :: "ProjectDocument list \<Rightarrow> ProjectData \<Rightarrow> ProjectData" where
  "prepend_documents uploaded prev = prev\<lparr>documents := uploaded @ documents prev\<rparr>"

text \<open>
  \<^verbatim>\<open>handleDocumentUpload\<close> (lines 150 to 203). \<^verbatim>\<open>getToken\<close> is awaited outside
  any \<^verbatim>\<open>try\<close>, so its failure leaves the handler. \<^verbatim>\<open>Promise.allSettled\<close> resumes
  the handler once every file's promise has fulfilled; under a schedule that leaves a
  pipeline waiting the handler does not return, which is the value \<open>None\<close>.
\<close>

definition handleDocumentUpload ::
  "string option \<Rightarrow> string \<Rightarrow> token response \<Rightarrow> (File \<times> item_answers) list \<Rightarrow> nat list \<Rightarrow>
   action list option" where
  "handleDocumentUpload userId projectId tokenRes items schedule =
     (if absent userId then Some []
      else
        (case tokenRes of
           Inl e \<Rightarrow> Some [Eff GetToken, Uncaught e]
         | Inr token \<Rightarrow>
             (let us = pipelines projectId token items schedule in
              if list_all (\<lambda>stg. stg = Settled) (stages us) then
                Some (Eff GetToken # map Eff (emitted us) @
                  (if length (uploadedDocuments us) > 0 then
                     [SetData (quiet (prepend_documents (uploadedDocuments us))),
                      Eff (Toast_success
                        (string_of_nat (length (uploadedDocuments us)) @ '' file(s) uploaded''))]
                   else []))
              else None)))"

text \<open>
  The updater of line 217:
  \<^verbatim>\<open>{...prev, documents: prev.documents.filter((doc) => doc.id !== documentId)}\<close>.
\<close>

definition remove_document :: "string \<Rightarrow> ProjectData \<Rightarrow> ProjectData" where
  "remove_document documentId prev =
     prev\<lparr>documents := filter (\<lambda>doc. doc_id doc \<noteq> documentId) (documents prev)\<rparr>"

text \<open>\<^verbatim>\<open>handleDocumentDelete\<close> (lines 205 to 226).\<close>

definition handleDocumentDelete ::
  "string option \<Rightarrow> string \<Rightarrow> string \<Rightarrow> token response \<Rightarrow> unit response \<Rightarrow> action list" where
  "handleDocumentDelete userId projectId documentId tokenRes deleteRes =
     (if absent userId then []
      else
        Eff GetToken #
        (case tokenRes of
           Inl e \<Rightarrow> [Eff (Toast_error ''Document deletion failed'')]
         | Inr token \<Rightarrow>
             Eff (Call (Delete (''/api/projects/'' @ projectId @ ''/files/'' @ documentId) token)) #
             (case deleteRes of
                Inl e \<Rightarrow> [Eff (Toast_error ''Document deletion failed'')]
              | Inr u \<Rightarrow>
                  [SetData (quiet (remove_document documentId)),
                   Eff (Toast_success ''Document deleted successfully!'')])))"

text \<open>The updater of line 245: \<^verbatim>\<open>{...prev, documents: [newDocument, ...prev.documents]}\<close>.\<close>

definition prepend_document :: "ProjectDocument \<Rightarrow> ProjectData \<Rightarrow> ProjectData" where
  "prepend_document newDocument prev = prev\<lparr>documents := newDocument # documents prev\<rparr>"

text \<open>\<^verbatim>\<open>handleUrlAdd\<close> (lines 228 to 254).\<close>

definition handleUrlAdd ::
  "string option \<Rightarrow> string \<Rightarrow> string \<Rightarrow> token response \<Rightarrow> ProjectDocument response \<Rightarrow> action list" where
  "handleUrlAdd userId projectId url tokenRes postRes =
     (if absent userId then []
      else
        Eff GetToken #
        (case tokenRes of
           Inl e \<Rightarrow> [Eff (Toast_error ''Failed to add website'')]
         | Inr token \<Rightarrow>
             Eff (Call (Post (''/api/projects/'' @ projectId @ ''/urls'') (Url_body url) token)) #
             (case postRes of
                Inl e \<Rightarrow> [Eff (Toast_error ''Failed to add website'')]
              | Inr newDocument \<Rightarrow>
                  [SetData (quiet (prepend_document newDocument)),
                   Eff (Toast_success ''Website added successfully!'')])))"

section \<open>Settings\<close>

text \<open>
  The updater of \<^verbatim>\<open>handleDraftSettings\<close> (lines 263 to 278). The spread
  \<^verbatim>\<open>{...prev.settings, ...updates}\<close> keeps every key of the settings and lets the
  keys of \<open>updates\<close> win: the map \<open>s ++ updates\<close>.
\<close>

definition draft_updater :: "ProjectSettings \<Rightarrow> ProjectData \<Rightarrow> ProjectData \<times> string list" where
  "draft_updater updates prev =
     (case settings prev of
        None \<Rightarrow> (prev, [''Cannot update settings: not loaded yet''])
      | Some s \<Rightarrow> (prev\<lparr>settings := Some (s ++ updates)\<rparr>, []))"

text \<open>\<^verbatim>\<open>handleDraftSettings\<close> (lines 262 to 279): no identity check, no remote call.\<close>

definition handleDraftSettings :: "ProjectSettings \<Rightarrow> action list" where
  "handleDraftSettings updates = [SetData (draft_updater updates)]"

text \<open>The updater of line 296: \<^verbatim>\<open>{...prev, settings: result.data}\<close>.\<close>

definition replace_settings :: "ProjectSettings option \<Rightarrow> ProjectData \<Rightarrow> ProjectData" where
  "replace_settings result prev = prev\<lparr>settings := result\<rparr>"

text \<open>
  \<^verbatim>\<open>handlePublishSettings\<close> (lines 281 to 305). \<open>d\<close> is the snapshot \<^verbatim>\<open>data\<close> of the
  render in which the handler was created: the guard and the request body read it, the
  updater reads the snapshot current when it runs.
\<close>

definition handlePublishSettings ::
  "string option \<Rightarrow> string \<Rightarrow> ProjectData \<Rightarrow> token response \<Rightarrow> ProjectSettings option response \<Rightarrow>
   action list" where
  "handlePublishSettings userId projectId d tokenRes putRes =
     (if absent userId then [Eff (Toast_error ''Cannot save settings'')]
      else
        (case settings d of
           None \<Rightarrow> [Eff (Toast_error ''Cannot save settings'')]
         | Some s \<Rightarrow>
             Eff GetToken #
             (case tokenRes of
                Inl e \<Rightarrow> [Eff (Toast_error ''Failed to save settings!'')]
              | Inr token \<Rightarrow>
                  Eff (Call (Put (''/api/projects/'' @ projectId @ ''/settings'') (Settings_body s) token)) #
                  (case putRes of
                     Inl e \<Rightarrow> [Eff (Toast_error ''Failed to save settings!'')]
                   | Inr result \<Rightarrow>
                       [SetData (quiet (replace_settings result)),
                        Eff (Toast_success ''Settings saved successfully!'')]))))"

section \<open>One pipeline on its own\<close>

text \<open>
  The definitions of this section are not functions of the page: they follow a single
  file's pipeline in isolation, by iterating \<open>resume\<close>, and serve to state and prove
  what the interleaved batch does.

  The state of one file's pipeline, with everything it has emitted and pushed so far,
  after one more awaited answer has arrived.
\<close>

definition advance ::
  "string \<Rightarrow> token \<Rightarrow> File \<times> item_answers \<Rightarrow> stage \<times> effect list \<times> ProjectDocument list \<Rightarrow>
   stage \<times> effect list \<times> ProjectDocument list" where
  "advance projectId token item p =
     (case p of (stg, effs, docs) \<Rightarrow>
        (case resume projectId token (fst item) (snd item) stg of
           (stg', effs', docs') \<Rightarrow> (stg', effs @ effs', docs @ docs')))"

text \<open>
  One file's pipeline after \<open>c\<close> of the answers it awaits have arrived, whatever the
  other files do in between.
\<close>

fun progress ::
  "string \<Rightarrow> token \<Rightarrow> File \<times> item_answers \<Rightarrow> nat \<Rightarrow> stage \<times> effect list \<times> ProjectDocument list" where
  "progress projectId token item 0 = (Reserving, [], [])"
| "progress projectId token item (Suc c) = advance projectId token item (progress projectId token item c)"

text \<open>
  How many answers a pipeline consumes before its promise fulfils: it stops at the first
  rejected stage, or after the third.
\<close>

definition answers_needed :: "item_answers \<Rightarrow> nat" where
  "answers_needed a =
     (case reserve a of
        Inl e \<Rightarrow> 1
      | Inr r \<Rightarrow> (case transfer a of Inl e \<Rightarrow> 2 | Inr u \<Rightarrow> 3))"

text \<open>
  An item fails when one of its three stages is rejected; it completes when all three
  are answered.
\<close>

definition item_fails :: "item_answers \<Rightarrow> bool" where
  "item_fails a = (isl (reserve a) \<or> isl (transfer a) \<or> isl (confirm a))"

section \<open>Properties\<close>

text \<open>
  C1 (atomic load). With the identity present and the token obtained, for every
  combination of the four reads succeeding or failing, the snapshot after the load is
  the record of the four results when all four succeeded and the prior snapshot
  otherwise; and every state visible while the load runs holds the prior snapshot or
  that complete record, never a mixture.
\<close>

theorem loadAllData_atomic:
  assumes "\<not> absent userId" and "tokenRes = Inr token"
  shows "data (run (loadAllData userId projectId tokenRes projectRes chatsRes documentsRes settingsRes) st) =
           (case (projectRes, chatsRes, documentsRes, settingsRes) of
              (Inr p, Inr c, Inr d, Inr s) \<Rightarrow>
                 \<lparr>project = p, chats = c, documents = d, settings = s\<rparr>
            | _ \<Rightarrow> data st)
         \<and> (\<forall>s \<in> set (states_of
               (loadAllData userId projectId tokenRes projectRes chatsRes documentsRes settingsRes) st).
               data s = data st \<or>
               data s = data (run
                 (loadAllData userId projectId tokenRes projectRes chatsRes documentsRes settingsRes) st))"
  using assms
  by (auto simp: loadAllData_def load_failed_def quiet_def split: sum.splits)

theorem loadAllData_atomic_witness:
  "\<not> absent (Some ''u1'') \<and>
   data (run (loadAllData (Some ''u1'') ''p1'' (Inr (Some ''tok''))
          (Inr (Some (Project ''p1'')))
          (Inr [\<lparr>chat_id = ''c1'', chat_title = ''Chat #1'', chat_project_id = ''p1''\<rparr>])
          (Inr []) (Inr (Some [''tone'' \<mapsto> ''formal'']))) initial_state) =
     \<lparr>project = Some (Project ''p1''),
      chats = [\<lparr>chat_id = ''c1'', chat_title = ''Chat #1'', chat_project_id = ''p1''\<rparr>],
      documents = [], settings = Some [''tone'' \<mapsto> ''formal'']\<rparr> \<and>
   data (run (loadAllData (Some ''u1'') ''p1'' (Inr (Some ''tok''))
          (Inr (Some (Project ''p1'')))
          (Inr [\<lparr>chat_id = ''c1'', chat_title = ''Chat #1'', chat_project_id = ''p1''\<rparr>])
          (Inl (Rejected ''500'')) (Inr (Some [''tone'' \<mapsto> ''formal'']))) initial_state) =
     initial_data"
  using loadAllData_atomic [of "Some ''u1''" "Inr (Some ''tok'')" "Some ''tok''" "''p1''"
      "Inr (Some (Project ''p1''))"
      "Inr [\<lparr>chat_id = ''c1'', chat_title = ''Chat #1'', chat_project_id = ''p1''\<rparr>]"
      "Inr []" "Inr (Some [''tone'' \<mapsto> ''formal''])" initial_state]
    loadAllData_atomic [of "Some ''u1''" "Inr (Some ''tok'')" "Some ''tok''" "''p1''"
      "Inr (Some (Project ''p1''))"
      "Inr [\<lparr>chat_id = ''c1'', chat_title = ''Chat #1'', chat_project_id = ''p1''\<rparr>]"
      "Inl (Rejected ''500'')" "Inr (Some [''tone'' \<mapsto> ''formal''])" initial_state]
  by (simp add: initial_state_def)

subsection \<open>Interleaved pipelines\<close>

lemma map_upt_update:
  "x < n \<Longrightarrow> (map f [0..<n])[x := v] = map (f(x := v)) [0..<n]"
  by (rule nth_equalityI) (auto simp: nth_list_update)

lemma map_update_outside:
  "x \<notin> set xs \<Longrightarrow> map (f(x := v)) xs = map f xs"
  by (induction xs) auto

lemma mset_concat_update:
  "distinct xs \<Longrightarrow> x \<in> set xs \<Longrightarrow>
   mset (concat (map (f(x := f x @ d)) xs)) = mset (concat (map f xs)) + mset d"
proof (induction xs)
  case Nil
  then show ?case by simp
next
  case (Cons y ys)
  show ?case
  proof (cases "y = x")
    case True
    with Cons.prems have "x \<notin> set ys" by simp
    then have e: "map (f(x := f x @ d)) ys = map f ys"
      by (rule map_update_outside)
    show ?thesis
      unfolding True
      by (simp only: list.map concat.simps fun_upd_same e mset_append) simp
  next
    case False
    with Cons show ?thesis by simp
  qed
qed

lemma pipelines_snoc:
  "pipelines projectId token items (s @ [x]) =
     deliver projectId token items x (pipelines projectId token items s)"
  by (simp add: pipelines_def)

lemma pipelines_progress:
  "stages (pipelines projectId token items s) =
     map (\<lambda>i. fst (progress projectId token (items ! i) (count_list s i))) [0..<length items]
   \<and> mset (uploadedDocuments (pipelines projectId token items s)) =
     mset (concat (map (\<lambda>i. snd (snd (progress projectId token (items ! i) (count_list s i))))
       [0..<length items]))
   \<and> mset (emitted (pipelines projectId token items s)) =
     mset (map (\<lambda>item. reserve_call projectId token (fst item)) items) +
     mset (concat (map (\<lambda>i. fst (snd (progress projectId token (items ! i) (count_list s i))))
       [0..<length items]))"
proof (induction s rule: rev_induct)
  case Nil
  have "map (\<lambda>item. Reserving) items = map (\<lambda>i. Reserving) [0..<length items]"
    by (simp add: map_replicate_const)
  then show ?case by (simp add: pipelines_def start_def)
next
  case (snoc x s)
  define us where "us = pipelines projectId token items s"
  define g where "g = (\<lambda>i. progress projectId token (items ! i) (count_list s i))"
  define g' where "g' = (\<lambda>i. progress projectId token (items ! i) (count_list (s @ [x]) i))"
  have st: "stages us = map (\<lambda>i. fst (g i)) [0..<length items]"
    and up: "mset (uploadedDocuments us) = mset (concat (map (\<lambda>i. snd (snd (g i))) [0..<length items]))"
    and em: "mset (emitted us) = mset (map (\<lambda>item. reserve_call projectId token (fst item)) items) +
       mset (concat (map (\<lambda>i. fst (snd (g i))) [0..<length items]))"
    using snoc by (simp_all add: us_def g_def)
  have g': "g' = g(x := advance projectId token (items ! x) (g x))"
    by (auto simp: g'_def g_def fun_eq_iff)
  show ?case
  proof (cases "x < length items")
    case False
    then have same: "i < length items \<Longrightarrow> g' i = g i" for i
      by (auto simp: g')
    have us': "pipelines projectId token items (s @ [x]) = us"
      using False by (simp add: pipelines_snoc deliver_def us_def)
    have a: "stages (pipelines projectId token items (s @ [x])) = map (\<lambda>i. fst (g' i)) [0..<length items]"
      unfolding us' st by (rule map_cong) (simp_all add: same)
    have e1: "map (\<lambda>i. snd (snd (g' i))) [0..<length items] = map (\<lambda>i. snd (snd (g i))) [0..<length items]"
      by (rule map_cong) (simp_all add: same)
    have b: "mset (uploadedDocuments (pipelines projectId token items (s @ [x]))) =
        mset (concat (map (\<lambda>i. snd (snd (g' i))) [0..<length items]))"
      unfolding us' up e1 by simp
    have e2: "map (\<lambda>i. fst (snd (g' i))) [0..<length items] = map (\<lambda>i. fst (snd (g i))) [0..<length items]"
      by (rule map_cong) (simp_all add: same)
    have c: "mset (emitted (pipelines projectId token items (s @ [x]))) =
        mset (map (\<lambda>item. reserve_call projectId token (fst item)) items) +
        mset (concat (map (\<lambda>i. fst (snd (g' i))) [0..<length items]))"
      unfolding us' em e2 by simp
    show ?thesis
      using a b c unfolding g'_def by blast
  next
    case True
    obtain stg effs docs where gx: "g x = (stg, effs, docs)"
      by (cases "g x") auto
    obtain stg' effs' docs' where r: "resume projectId token (fst (items ! x)) (snd (items ! x)) stg = (stg', effs', docs')"
      by (cases "resume projectId token (fst (items ! x)) (snd (items ! x)) stg") auto
    have adv: "advance projectId token (items ! x) (g x) = (stg', effs @ effs', docs @ docs')"
      by (simp add: advance_def gx r)
    have sx: "stages us ! x = stg"
      using True by (simp add: st gx)
    have len: "length (stages us) = length items"
      by (simp add: st)
    have d: "pipelines projectId token items (s @ [x]) =
        \<lparr>stages = (stages us)[x := stg'], uploadedDocuments = uploadedDocuments us @ docs',
         emitted = emitted us @ effs'\<rparr>"
      using True by (simp add: pipelines_snoc deliver_def us_def [symmetric] len sx r)
    have 1: "(\<lambda>i. fst (g' i)) = (\<lambda>i. fst (g i))(x := stg')"
      by (auto simp: g' adv fun_eq_iff)
    have 2: "(\<lambda>i. snd (snd (g' i))) = (\<lambda>i. snd (snd (g i)))(x := snd (snd (g x)) @ docs')"
      by (auto simp: g' adv [unfolded gx] gx fun_eq_iff)
    have 3: "(\<lambda>i. fst (snd (g' i))) = (\<lambda>i. fst (snd (g i)))(x := fst (snd (g x)) @ effs')"
      by (auto simp: g' adv [unfolded gx] gx fun_eq_iff)
    have x_in: "x \<in> set [0..<length items]" "distinct [0..<length items]"
      using True by simp_all
    have a: "stages (pipelines projectId token items (s @ [x])) = map (\<lambda>i. fst (g' i)) [0..<length items]"
      using True by (simp add: d st 1 map_upt_update)
    have b: "mset (uploadedDocuments (pipelines projectId token items (s @ [x]))) =
        mset (concat (map (\<lambda>i. snd (snd (g' i))) [0..<length items]))"
      unfolding 2
      using mset_concat_update [OF x_in(2) x_in(1), of "\<lambda>i. snd (snd (g i))" docs']
      by (simp add: d up)
    have c: "mset (emitted (pipelines projectId token items (s @ [x]))) =
        mset (map (\<lambda>item. reserve_call projectId token (fst item)) items) +
        mset (concat (map (\<lambda>i. fst (snd (g' i))) [0..<length items]))"
      unfolding 3
      using mset_concat_update [OF x_in(2) x_in(1), of "\<lambda>i. fst (snd (g i))" effs']
      by (simp add: d em)
    show ?thesis
      using a b c unfolding g'_def by blast
  qed
qed

lemma advance_settled:
  "advance projectId token item (Settled, effs, docs) = (Settled, effs, docs)"
  by (simp add: advance_def)

lemma progress_absorbing:
  "fst (progress projectId token item c) = Settled \<Longrightarrow>
   progress projectId token item (c + m) = progress projectId token item c"
proof (induction m)
  case 0
  then show ?case by simp
next
  case (Suc m)
  obtain effs docs where "progress projectId token item c = (Settled, effs, docs)"
    using Suc.prems by (cases "progress projectId token item c") auto
  with Suc show ?case by (simp add: advance_settled)
qed

lemma progress_1:
  "progress projectId token item (Suc 0) =
     (case reserve (snd item) of
        Inl e \<Rightarrow> (Settled, upload_failed (fst item), [])
      | Inr (upload_url, s3_key) \<Rightarrow>
          (Transferring s3_key, [Call (UploadToS3 upload_url (fst item))], []))"
  by (simp add: advance_def split: sum.splits prod.splits)

lemma progress_2:
  "progress projectId token item (Suc (Suc 0)) =
     (case reserve (snd item) of
        Inl e \<Rightarrow> (Settled, upload_failed (fst item), [])
      | Inr (upload_url, s3_key) \<Rightarrow>
          (case transfer (snd item) of
             Inl e \<Rightarrow> (Settled, Call (UploadToS3 upload_url (fst item)) # upload_failed (fst item), [])
           | Inr u \<Rightarrow>
               (Confirming,
                [Call (UploadToS3 upload_url (fst item)),
                 Call (Post (''/api/projects/'' @ projectId @ ''/files/confirm'') (Confirm_body s3_key) token)],
                [])))"
  by (simp add: advance_def split: sum.splits prod.splits)

lemma progress_3:
  "progress projectId token item (Suc (Suc (Suc 0))) =
     (case reserve (snd item) of
        Inl e \<Rightarrow> (Settled, upload_failed (fst item), [])
      | Inr (upload_url, s3_key) \<Rightarrow>
          (case transfer (snd item) of
             Inl e \<Rightarrow> (Settled, Call (UploadToS3 upload_url (fst item)) # upload_failed (fst item), [])
           | Inr u \<Rightarrow>
               (case confirm (snd item) of
                  Inl e \<Rightarrow>
                    (Settled,
                     [Call (UploadToS3 upload_url (fst item)),
                      Call (Post (''/api/projects/'' @ projectId @ ''/files/confirm'') (Confirm_body s3_key) token)]
                     @ upload_failed (fst item), [])
                | Inr doc \<Rightarrow>
                    (Settled,
                     [Call (UploadToS3 upload_url (fst item)),
                      Call (Post (''/api/projects/'' @ projectId @ ''/files/confirm'') (Confirm_body s3_key) token)],
                     [doc]))))"
  by (simp add: advance_def split: sum.splits prod.splits)

lemma progress_settled_iff:
  "fst (progress projectId token item c) = Settled \<longleftrightarrow> answers_needed (snd item) \<le> c"
proof -
  consider "c = 0" | "c = Suc 0" | "c = Suc (Suc 0)" | m where "c = Suc (Suc (Suc 0)) + m"
    by (metis add.commute add_Suc_right add_cancel_left_left not0_implies_Suc)
  then show ?thesis
  proof cases
    case 1
    then show ?thesis by (simp add: answers_needed_def split: sum.splits)
  next
    case 2
    then show ?thesis
      by (simp only: progress_1) (simp add: answers_needed_def split: sum.splits prod.splits)
  next
    case 3
    then show ?thesis
      by (simp only: progress_2) (simp add: answers_needed_def split: sum.splits prod.splits)
  next
    case 4
    have s: "fst (progress projectId token item (Suc (Suc (Suc 0)))) = Settled"
      by (simp only: progress_3) (simp split: sum.splits prod.splits)
    have "answers_needed (snd item) \<le> 3"
      by (simp add: answers_needed_def split: sum.splits)
    then show ?thesis
      using progress_absorbing [OF s, of m] s 4 by simp
  qed
qed

lemma progress_final:
  "answers_needed (snd item) \<le> c \<Longrightarrow>
   progress projectId token item c = progress projectId token item (Suc (Suc (Suc 0)))"
proof -
  assume a: "answers_needed (snd item) \<le> c"
  have le3: "answers_needed (snd item) \<le> Suc (Suc (Suc 0))"
    by (simp add: answers_needed_def split: sum.splits)
  define n where "n = answers_needed (snd item)"
  have s: "fst (progress projectId token item n) = Settled"
    by (simp add: progress_settled_iff n_def)
  have e1: "n + (c - n) = c" and e2: "n + (Suc (Suc (Suc 0)) - n) = Suc (Suc (Suc 0))"
    using a le3 by (simp_all add: n_def)
  have "progress projectId token item c = progress projectId token item n"
    using progress_absorbing [OF s, of "c - n"] by (simp only: e1)
  moreover have "progress projectId token item (Suc (Suc (Suc 0))) = progress projectId token item n"
    using progress_absorbing [OF s, of "Suc (Suc (Suc 0)) - n"] by (simp only: e2)
  ultimately show ?thesis
    by (simp only:)
qed

lemma run_effects: "run (map Eff es @ bs) st = run bs st"
  by (induction es) auto

lemma concat_map_skip:
  "D k = [] \<Longrightarrow> concat (map D xs) = concat (map D (filter (\<lambda>j. j \<noteq> k) xs))"
  by (induction xs) auto

lemma length_concat_singletons:
  "\<forall>x \<in> set xs. length (D x) = 1 \<Longrightarrow> length (concat (map D xs)) = length xs"
  by (induction xs) auto

lemma length_filter_neq_upt:
  "k < n \<Longrightarrow> length (filter (\<lambda>j. j \<noteq> k) [0..<n]) = n - 1"
proof -
  assume "k < n"
  then have "{x. x \<noteq> k} \<inter> set [0..<n] = {0..<n} - {k}" by auto
  moreover have "card ({0..<n} - {k}) = n - 1"
    using \<open>k < n\<close> by simp
  ultimately show ?thesis
    by (simp add: distinct_length_filter)
qed

lemma concat_only:
  "distinct xs \<Longrightarrow> k \<in> set xs \<Longrightarrow> \<forall>j \<in> set xs. j \<noteq> k \<longrightarrow> F j = [] \<Longrightarrow>
   concat (map F xs) = F k"
proof (induction xs)
  case Nil
  then show ?case by simp
next
  case (Cons y ys)
  show ?case
  proof (cases "y = k")
    case True
    with Cons.prems have "\<forall>j \<in> set ys. F j = []" by auto
    then have "concat (map F ys) = []" by simp
    with True show ?thesis by simp
  next
    case False
    with Cons show ?thesis by auto
  qed
qed

lemma all_settled_iff:
  "list_all (\<lambda>stg. stg = Settled) (stages (pipelines projectId token items s)) \<longleftrightarrow>
     (\<forall>j < length items. answers_needed (snd (items ! j)) \<le> count_list s j)"
proof -
  have "stages (pipelines projectId token items s) =
      map (\<lambda>i. fst (progress projectId token (items ! i) (count_list s i))) [0..<length items]"
    using pipelines_progress [of projectId token items s] by blast
  then show ?thesis
    by (auto simp: list_all_iff progress_settled_iff)
qed

lemma settled_outcome:
  assumes "\<forall>j < length items. answers_needed (snd (items ! j)) \<le> count_list s j"
  shows "mset (uploadedDocuments (pipelines projectId token items s)) =
      mset (concat (map (\<lambda>i. snd (snd (progress projectId token (items ! i) (Suc (Suc (Suc 0))))))
        [0..<length items]))"
    and "mset (emitted (pipelines projectId token items s)) =
      mset (map (\<lambda>item. reserve_call projectId token (fst item)) items) +
      mset (concat (map (\<lambda>i. fst (snd (progress projectId token (items ! i) (Suc (Suc (Suc 0))))))
        [0..<length items]))"
proof -
  have e: "i < length items \<Longrightarrow>
      progress projectId token (items ! i) (count_list s i) =
      progress projectId token (items ! i) (Suc (Suc (Suc 0)))" for i
    using assms by (simp only: progress_final)
  have 1: "map (\<lambda>i. snd (snd (progress projectId token (items ! i) (count_list s i)))) [0..<length items]
      = map (\<lambda>i. snd (snd (progress projectId token (items ! i) (Suc (Suc (Suc 0)))))) [0..<length items]"
    by (rule map_cong) (simp_all only: e set_upt atLeastLessThan_iff)
  have 2: "map (\<lambda>i. fst (snd (progress projectId token (items ! i) (count_list s i)))) [0..<length items]
      = map (\<lambda>i. fst (snd (progress projectId token (items ! i) (Suc (Suc (Suc 0)))))) [0..<length items]"
    by (rule map_cong) (simp_all only: e set_upt atLeastLessThan_iff)
  show "mset (uploadedDocuments (pipelines projectId token items s)) =
      mset (concat (map (\<lambda>i. snd (snd (progress projectId token (items ! i) (Suc (Suc (Suc 0))))))
        [0..<length items]))"
    using pipelines_progress [of projectId token items s] by (simp only: 1)
  show "mset (emitted (pipelines projectId token items s)) =
      mset (map (\<lambda>item. reserve_call projectId token (fst item)) items) +
      mset (concat (map (\<lambda>i. fst (snd (progress projectId token (items ! i) (Suc (Suc (Suc 0))))))
        [0..<length items]))"
    using pipelines_progress [of projectId token items s] by (simp only: 2)
qed

lemma sibling_outcome:
  assumes "\<not> item_fails (snd item)"
  shows "\<exists>upload_url s3_key doc.
     reserve (snd item) = Inr (upload_url, s3_key) \<and> confirm (snd item) = Inr doc \<and>
     progress projectId token item (Suc (Suc (Suc 0))) =
       (Settled,
        [Call (UploadToS3 upload_url (fst item)),
         Call (Post (''/api/projects/'' @ projectId @ ''/files/confirm'') (Confirm_body s3_key) token)],
        [doc])"
  using assms
  by (simp only: progress_3) (auto simp: item_fails_def isl_def split: sum.splits prod.splits)

lemma failed_outcome:
  assumes "item_fails (snd item)"
  shows "snd (snd (progress projectId token item (Suc (Suc (Suc 0))))) = []
     \<and> filter (\<lambda>e. is_failure_report (Eff e)) (fst (snd (progress projectId token item (Suc (Suc (Suc 0))))))
         = upload_failed (fst item)"
  using assms
  by (simp only: progress_3)
     (auto simp: item_fails_def isl_def upload_failed_def split: sum.splits prod.splits)

lemma batch_one_failure:
  assumes k: "k < length items"
    and fk: "item_fails (snd (items ! k))"
    and sib: "\<forall>j < length items. j \<noteq> k \<longrightarrow> \<not> item_fails (snd (items ! j))"
    and fair: "\<forall>j < length items. answers_needed (snd (items ! j)) \<le> count_list s j"
  shows "length (uploadedDocuments (pipelines projectId token items s)) = length items - 1"
    and "mset (uploadedDocuments (pipelines projectId token items s)) =
      mset (concat (map (\<lambda>j. case confirm (snd (items ! j)) of Inr doc \<Rightarrow> [doc] | Inl e \<Rightarrow> [])
        (filter (\<lambda>j. j \<noteq> k) [0..<length items])))"
    and "filter (\<lambda>e. is_failure_report (Eff e)) (emitted (pipelines projectId token items s)) =
      upload_failed (fst (items ! k))"
    and "\<forall>j < length items. j \<noteq> k \<longrightarrow>
      (\<exists>upload_url s3_key doc.
         reserve (snd (items ! j)) = Inr (upload_url, s3_key) \<and> confirm (snd (items ! j)) = Inr doc
         \<and> reserve_call projectId token (fst (items ! j)) \<in> set (emitted (pipelines projectId token items s))
         \<and> Call (UploadToS3 upload_url (fst (items ! j))) \<in> set (emitted (pipelines projectId token items s))
         \<and> Call (Post (''/api/projects/'' @ projectId @ ''/files/confirm'') (Confirm_body s3_key) token)
              \<in> set (emitted (pipelines projectId token items s))
         \<and> doc \<in> set (uploadedDocuments (pipelines projectId token items s)))"
proof -
  define us where "us = pipelines projectId token items s"
  define D where "D = (\<lambda>i. snd (snd (progress projectId token (items ! i) (Suc (Suc (Suc 0))))))"
  define E where "E = (\<lambda>i. fst (snd (progress projectId token (items ! i) (Suc (Suc (Suc 0))))))"
  define C where "C = (\<lambda>j. case confirm (snd (items ! j)) of Inr doc \<Rightarrow> [doc] | Inl e \<Rightarrow> [])"
  define R where "R = map (\<lambda>item. reserve_call projectId token (fst item)) items"
  define P where "P = (\<lambda>e. is_failure_report (Eff e))"
  define others where "others = filter (\<lambda>j. j \<noteq> k) [0..<length items]"
  have up: "mset (uploadedDocuments us) = mset (concat (map D [0..<length items]))"
    and em: "mset (emitted us) = mset R + mset (concat (map E [0..<length items]))"
    using settled_outcome [OF fair, of projectId token] by (simp_all only: us_def D_def E_def R_def)
  have Dk: "D k = []" and Ek: "filter P (E k) = upload_failed (fst (items ! k))"
    using failed_outcome [OF fk, of projectId token] by (simp_all only: D_def E_def P_def)
  have sibling: "\<exists>upload_url s3_key doc.
      reserve (snd (items ! j)) = Inr (upload_url, s3_key) \<and> confirm (snd (items ! j)) = Inr doc \<and>
      D j = [doc] \<and>
      E j = [Call (UploadToS3 upload_url (fst (items ! j))),
             Call (Post (''/api/projects/'' @ projectId @ ''/files/confirm'') (Confirm_body s3_key) token)]"
    if "j < length items" "j \<noteq> k" for j
  proof -
    have "\<not> item_fails (snd (items ! j))" using sib that by blast
    from sibling_outcome [OF this, of projectId token] show ?thesis
      by (auto simp: D_def E_def)
  qed
  have others_set: "set others = {j. j < length items \<and> j \<noteq> k}"
    by (auto simp: others_def)
  have DC: "map D others = map C others"
  proof (rule map_cong [OF refl])
    fix j assume "j \<in> set others"
    then have "j < length items" "j \<noteq> k" by (simp_all add: others_set)
    from sibling [OF this] show "D j = C j" by (auto simp: C_def)
  qed
  have skip: "concat (map D [0..<length items]) = concat (map D others)"
    unfolding others_def using Dk by (rule concat_map_skip [of D k])
  have ms: "mset (uploadedDocuments us) = mset (concat (map C others))"
    by (simp only: up skip DC)
  have "\<forall>j \<in> set others. length (D j) = 1"
  proof
    fix j assume "j \<in> set others"
    then have "j < length items" "j \<noteq> k" by (simp_all add: others_set)
    from sibling [OF this] show "length (D j) = 1" by auto
  qed
  then have "length (concat (map D others)) = length others"
    by (rule length_concat_singletons)
  moreover have "length others = length items - 1"
    unfolding others_def by (rule length_filter_neq_upt [OF k])
  moreover have "length (uploadedDocuments us) = length (concat (map D others))"
    using up skip by (metis size_mset)
  ultimately have len: "length (uploadedDocuments us) = length items - 1"
    by simp
  have PR: "filter P R = []"
    by (auto simp: R_def P_def reserve_call_def filter_empty_conv)
  have PE: "\<forall>j \<in> set [0..<length items]. j \<noteq> k \<longrightarrow> filter P (E j) = []"
  proof (intro ballI impI)
    fix j assume "j \<in> set [0..<length items]" "j \<noteq> k"
    then have "j < length items" "j \<noteq> k" by simp_all
    from sibling [OF this] show "filter P (E j) = []" by (auto simp: P_def)
  qed
  have "concat (map (\<lambda>j. filter P (E j)) [0..<length items]) = filter P (E k)"
    using concat_only [of "[0..<length items]" k "\<lambda>j. filter P (E j)"] k PE by simp
  then have "filter P (concat (map E [0..<length items])) = upload_failed (fst (items ! k))"
    by (simp add: filter_concat o_def Ek)
  then have "mset (filter P (R @ concat (map E [0..<length items]))) =
      mset (upload_failed (fst (items ! k)))"
    by (simp add: PR)
  moreover have "mset (filter P (emitted us)) = mset (filter P (R @ concat (map E [0..<length items])))"
    by (simp add: em)
  ultimately have "mset (filter P (emitted us)) = mset (upload_failed (fst (items ! k)))"
    by simp
  then have toast: "filter P (emitted us) = upload_failed (fst (items ! k))"
    by (simp only: upload_failed_def mset.simps mset_single_iff)
  have set_em: "set (emitted us) = set R \<union> (\<Union>i \<in> {0..<length items}. set (E i))"
    using mset_eq_setD [of "emitted us" "R @ concat (map E [0..<length items])"] em by simp
  have set_up: "set (uploadedDocuments us) = (\<Union>i \<in> {0..<length items}. set (D i))"
    using mset_eq_setD [of "uploadedDocuments us" "concat (map D [0..<length items])"] up by simp
  have calls: "\<exists>upload_url s3_key doc.
         reserve (snd (items ! j)) = Inr (upload_url, s3_key) \<and> confirm (snd (items ! j)) = Inr doc
         \<and> reserve_call projectId token (fst (items ! j)) \<in> set (emitted us)
         \<and> Call (UploadToS3 upload_url (fst (items ! j))) \<in> set (emitted us)
         \<and> Call (Post (''/api/projects/'' @ projectId @ ''/files/confirm'') (Confirm_body s3_key) token)
              \<in> set (emitted us)
         \<and> doc \<in> set (uploadedDocuments us)"
    if j: "j < length items" "j \<noteq> k" for j
  proof -
    from sibling [OF j] obtain upload_url s3_key doc where
      r: "reserve (snd (items ! j)) = Inr (upload_url, s3_key)" and c: "confirm (snd (items ! j)) = Inr doc"
      and d: "D j = [doc]"
      and e: "E j = [Call (UploadToS3 upload_url (fst (items ! j))),
             Call (Post (''/api/projects/'' @ projectId @ ''/files/confirm'') (Confirm_body s3_key) token)]"
      by blast
    have "reserve_call projectId token (fst (items ! j)) \<in> set R"
      using j(1) by (auto simp: R_def in_set_conv_nth intro!: exI [of _ j])
    moreover have "set (E j) \<subseteq> set (emitted us)" and "set (D j) \<subseteq> set (uploadedDocuments us)"
      using j(1) by (auto simp: set_em set_up)
    ultimately show ?thesis
      using r c d e by (auto simp: set_em)
  qed
  show "length (uploadedDocuments (pipelines projectId token items s)) = length items - 1"
    using len by (simp only: us_def)
  show "mset (uploadedDocuments (pipelines projectId token items s)) =
      mset (concat (map (\<lambda>j. case confirm (snd (items ! j)) of Inr doc \<Rightarrow> [doc] | Inl e \<Rightarrow> [])
        (filter (\<lambda>j. j \<noteq> k) [0..<length items])))"
    using ms by (simp only: us_def C_def others_def)
  show "filter (\<lambda>e. is_failure_report (Eff e)) (emitted (pipelines projectId token items s)) =
      upload_failed (fst (items ! k))"
    using toast by (simp only: us_def P_def)
  show "\<forall>j < length items. j \<noteq> k \<longrightarrow>
      (\<exists>upload_url s3_key doc.
         reserve (snd (items ! j)) = Inr (upload_url, s3_key) \<and> confirm (snd (items ! j)) = Inr doc
         \<and> reserve_call projectId token (fst (items ! j)) \<in> set (emitted (pipelines projectId token items s))
         \<and> Call (UploadToS3 upload_url (fst (items ! j))) \<in> set (emitted (pipelines projectId token items s))
         \<and> Call (Post (''/api/projects/'' @ projectId @ ''/files/confirm'') (Confirm_body s3_key) token)
              \<in> set (emitted (pipelines projectId token items s))
         \<and> doc \<in> set (uploadedDocuments (pipelines projectId token items s)))"
    using calls unfolding us_def by blast
qed

text \<open>
  C2 (upload isolation). Take a batch of N files, the identity present and the token
  obtained, in which item \<open>k\<close> is rejected at one of its three stages and every other
  item is answered at all three. Then, for every order in which the answers arrive:
  the handler returns exactly when every item has received all the answers its pipeline
  waits for (the batch settles only after every item has succeeded or failed); and when
  it returns, the snapshot differs from the prior one only in the document sequence,
  which is one group of exactly N - 1 documents followed by the prior sequence, the
  group holding the confirmed documents of the siblings in some order; the only failure
  reported is the toast for file \<open>k\<close>; and every sibling issued its reservation, its
  transfer and its confirmation and has its document in the group.
\<close>

theorem handleDocumentUpload_isolates_failure:
  assumes "\<not> absent userId" and "tokenRes = Inr token"
    and "k < length items"
    and "item_fails (snd (items ! k))"
    and "\<forall>j < length items. j \<noteq> k \<longrightarrow> \<not> item_fails (snd (items ! j))"
  shows "(handleDocumentUpload userId projectId tokenRes items schedule \<noteq> None) =
           (\<forall>j < length items. answers_needed (snd (items ! j)) \<le> count_list schedule j)
    \<and> (\<forall>as. handleDocumentUpload userId projectId tokenRes items schedule = Some as \<longrightarrow>
         (\<exists>group.
            data (run as st) = (data st)\<lparr>documents := group @ documents (data st)\<rparr>
            \<and> length group = length items - 1
            \<and> mset group =
                mset (concat (map (\<lambda>j. case confirm (snd (items ! j)) of Inr doc \<Rightarrow> [doc] | Inl e \<Rightarrow> [])
                  (filter (\<lambda>j. j \<noteq> k) [0..<length items])))
            \<and> failure_reports as = [Eff (Toast_error (''Failed to upload '' @ file_name (fst (items ! k))))]
            \<and> (\<forall>j < length items. j \<noteq> k \<longrightarrow>
                 (\<exists>upload_url s3_key doc.
                    reserve (snd (items ! j)) = Inr (upload_url, s3_key)
                    \<and> confirm (snd (items ! j)) = Inr doc
                    \<and> Eff (reserve_call projectId token (fst (items ! j))) \<in> set as
                    \<and> Eff (Call (UploadToS3 upload_url (fst (items ! j)))) \<in> set as
                    \<and> Eff (Call (Post (''/api/projects/'' @ projectId @ ''/files/confirm'')
                               (Confirm_body s3_key) token)) \<in> set as
                    \<and> doc \<in> set group))))"
proof -
  define us where "us = pipelines projectId token items schedule"
  define tail where "tail =
    (if length (uploadedDocuments us) > 0 then
       [SetData (quiet (prepend_documents (uploadedDocuments us))),
        Eff (Toast_success (string_of_nat (length (uploadedDocuments us)) @ '' file(s) uploaded''))]
     else [])"
  have h: "handleDocumentUpload userId projectId tokenRes items schedule =
      (if list_all (\<lambda>stg. stg = Settled) (stages us)
       then Some (Eff GetToken # map Eff (emitted us) @ tail) else None)"
    using assms(1,2) by (simp add: handleDocumentUpload_def Let_def us_def tail_def)
  have settle: "(handleDocumentUpload userId projectId tokenRes items schedule \<noteq> None) =
      (\<forall>j < length items. answers_needed (snd (items ! j)) \<le> count_list schedule j)"
    by (simp add: h us_def all_settled_iff)
  have main: "\<exists>group.
            data (run as st) = (data st)\<lparr>documents := group @ documents (data st)\<rparr>
            \<and> length group = length items - 1
            \<and> mset group =
                mset (concat (map (\<lambda>j. case confirm (snd (items ! j)) of Inr doc \<Rightarrow> [doc] | Inl e \<Rightarrow> [])
                  (filter (\<lambda>j. j \<noteq> k) [0..<length items])))
            \<and> failure_reports as = [Eff (Toast_error (''Failed to upload '' @ file_name (fst (items ! k))))]
            \<and> (\<forall>j < length items. j \<noteq> k \<longrightarrow>
                 (\<exists>upload_url s3_key doc.
                    reserve (snd (items ! j)) = Inr (upload_url, s3_key)
                    \<and> confirm (snd (items ! j)) = Inr doc
                    \<and> Eff (reserve_call projectId token (fst (items ! j))) \<in> set as
                    \<and> Eff (Call (UploadToS3 upload_url (fst (items ! j)))) \<in> set as
                    \<and> Eff (Call (Post (''/api/projects/'' @ projectId @ ''/files/confirm'')
                               (Confirm_body s3_key) token)) \<in> set as
                    \<and> doc \<in> set group))"
    if some: "handleDocumentUpload userId projectId tokenRes items schedule = Some as" for as
  proof -
    have fair: "\<forall>j < length items. answers_needed (snd (items ! j)) \<le> count_list schedule j"
      using settle some by simp
    have as: "as = Eff GetToken # map Eff (emitted us) @ tail"
      using some h by (simp split: if_splits)
    note b = batch_one_failure [OF assms(3,4,5) fair, of projectId token, folded us_def]
    have 1: "data (run as st) = (data st)\<lparr>documents := uploadedDocuments us @ documents (data st)\<rparr>"
      by (simp add: as run_effects tail_def quiet_def prepend_documents_def)
    have "filter is_failure_report tail = []"
      by (simp add: tail_def)
    then have 4: "failure_reports as =
        [Eff (Toast_error (''Failed to upload '' @ file_name (fst (items ! k))))]"
      using b(3) by (simp add: failure_reports_def as filter_map o_def upload_failed_def)
    have 5: "Eff e \<in> set as" if "e \<in> set (emitted us)" for e
      using that by (simp add: as)
    show ?thesis
    proof (intro exI [of _ "uploadedDocuments us"] conjI allI impI)
      fix j assume j: "j < length items" "j \<noteq> k"
      with b(4) obtain upload_url s3_key doc where
        "reserve (snd (items ! j)) = Inr (upload_url, s3_key)"
        "confirm (snd (items ! j)) = Inr doc"
        "reserve_call projectId token (fst (items ! j)) \<in> set (emitted us)"
        "Call (UploadToS3 upload_url (fst (items ! j))) \<in> set (emitted us)"
        "Call (Post (''/api/projects/'' @ projectId @ ''/files/confirm'') (Confirm_body s3_key) token)
              \<in> set (emitted us)"
        "doc \<in> set (uploadedDocuments us)"
        by blast
      then show "\<exists>upload_url s3_key doc.
                    reserve (snd (items ! j)) = Inr (upload_url, s3_key)
                    \<and> confirm (snd (items ! j)) = Inr doc
                    \<and> Eff (reserve_call projectId token (fst (items ! j))) \<in> set as
                    \<and> Eff (Call (UploadToS3 upload_url (fst (items ! j)))) \<in> set as
                    \<and> Eff (Call (Post (''/api/projects/'' @ projectId @ ''/files/confirm'')
                               (Confirm_body s3_key) token)) \<in> set as
                    \<and> doc \<in> set (uploadedDocuments us)"
        using 5 by blast
    qed (rule 1 b(1) b(2) 4)+
  qed
  show ?thesis
    using settle main by blast
qed

theorem handleDocumentUpload_isolates_failure_witness:
  "\<not> absent (Some ''u1'') \<and>
   item_fails (snd ([(\<lparr>file_name = ''a.pdf'', file_size = 10, file_type = ''application/pdf'', file_bytes = ''aaaa''\<rparr>,
       \<lparr>reserve = Inr (''https://s3/a'', ''key-a''), transfer = Inr (),
        confirm = Inr \<lparr>doc_id = ''dA'', doc_source_type = Uploaded_file, doc_status = ''processing''\<rparr>\<rparr>),
      (\<lparr>file_name = ''b.pdf'', file_size = 20, file_type = ''application/pdf'', file_bytes = ''bbbb''\<rparr>,
       \<lparr>reserve = Inl (Rejected ''network''), transfer = Inr (),
        confirm = Inr \<lparr>doc_id = ''dB'', doc_source_type = Uploaded_file, doc_status = ''processing''\<rparr>\<rparr>),
      (\<lparr>file_name = ''c.pdf'', file_size = 30, file_type = ''application/pdf'', file_bytes = ''cccc''\<rparr>,
       \<lparr>reserve = Inr (''https://s3/c'', ''key-c''), transfer = Inr (),
        confirm = Inr \<lparr>doc_id = ''dC'', doc_source_type = Uploaded_file, doc_status = ''processing''\<rparr>\<rparr>)] ! 1)) \<and>
   (\<exists>as. handleDocumentUpload (Some ''u1'') ''p1'' (Inr (Some ''tok''))
     [(\<lparr>file_name = ''a.pdf'', file_size = 10, file_type = ''application/pdf'', file_bytes = ''aaaa''\<rparr>,
       \<lparr>reserve = Inr (''https://s3/a'', ''key-a''), transfer = Inr (),
        confirm = Inr \<lparr>doc_id = ''dA'', doc_source_type = Uploaded_file, doc_status = ''processing''\<rparr>\<rparr>),
      (\<lparr>file_name = ''b.pdf'', file_size = 20, file_type = ''application/pdf'', file_bytes = ''bbbb''\<rparr>,
       \<lparr>reserve = Inl (Rejected ''network''), transfer = Inr (),
        confirm = Inr \<lparr>doc_id = ''dB'', doc_source_type = Uploaded_file, doc_status = ''processing''\<rparr>\<rparr>),
      (\<lparr>file_name = ''c.pdf'', file_size = 30, file_type = ''application/pdf'', file_bytes = ''cccc''\<rparr>,
       \<lparr>reserve = Inr (''https://s3/c'', ''key-c''), transfer = Inr (),
        confirm = Inr \<lparr>doc_id = ''dC'', doc_source_type = Uploaded_file, doc_status = ''processing''\<rparr>\<rparr>)]
     [2, 0, 1, 0, 2, 2, 0] = Some as
      \<and> failure_reports as = [Eff (Toast_error ''Failed to upload b.pdf'')]
      \<and> documents (data (run as initial_state)) = [\<lparr>doc_id = ''dC'', doc_source_type = Uploaded_file, doc_status = ''processing''\<rparr>, \<lparr>doc_id = ''dA'', doc_source_type = Uploaded_file, doc_status = ''processing''\<rparr>])"
proof -
  let ?items = "[(\<lparr>file_name = ''a.pdf'', file_size = 10, file_type = ''application/pdf'', file_bytes = ''aaaa''\<rparr>,
       \<lparr>reserve = Inr (''https://s3/a'', ''key-a''), transfer = Inr (),
        confirm = Inr \<lparr>doc_id = ''dA'', doc_source_type = Uploaded_file, doc_status = ''processing''\<rparr>\<rparr>),
      (\<lparr>file_name = ''b.pdf'', file_size = 20, file_type = ''application/pdf'', file_bytes = ''bbbb''\<rparr>,
       \<lparr>reserve = Inl (Rejected ''network''), transfer = Inr (),
        confirm = Inr \<lparr>doc_id = ''dB'', doc_source_type = Uploaded_file, doc_status = ''processing''\<rparr>\<rparr>),
      (\<lparr>file_name = ''c.pdf'', file_size = 30, file_type = ''application/pdf'', file_bytes = ''cccc''\<rparr>,
       \<lparr>reserve = Inr (''https://s3/c'', ''key-c''), transfer = Inr (),
        confirm = Inr \<lparr>doc_id = ''dC'', doc_source_type = Uploaded_file, doc_status = ''processing''\<rparr>\<rparr>)]"
  have 1: "\<not> absent (Some ''u1'')" by simp
  have 3: "1 < length ?items" by simp
  have 4: "item_fails (snd (?items ! 1))" by (simp add: item_fails_def)
  have 5: "\<forall>j < length ?items. j \<noteq> 1 \<longrightarrow> \<not> item_fails (snd (?items ! j))"
    by (simp add: item_fails_def All_less_Suc)
  note t = handleDocumentUpload_isolates_failure [OF 1 refl 3 4 5, where projectId = "''p1''"
      and token = "Some ''tok''" and schedule = "[2, 0, 1, 0, 2, 2, 0]" and st = initial_state]
  have fair: "\<forall>j < length ?items. answers_needed (snd (?items ! j)) \<le> count_list [2, 0, 1, 0, 2, 2, 0] j"
    by (simp add: answers_needed_def All_less_Suc)
  from t fair obtain as where as: "handleDocumentUpload (Some ''u1'') ''p1'' (Inr (Some ''tok''))
     [(\<lparr>file_name = ''a.pdf'', file_size = 10, file_type = ''application/pdf'', file_bytes = ''aaaa''\<rparr>,
       \<lparr>reserve = Inr (''https://s3/a'', ''key-a''), transfer = Inr (),
        confirm = Inr \<lparr>doc_id = ''dA'', doc_source_type = Uploaded_file, doc_status = ''processing''\<rparr>\<rparr>),
      (\<lparr>file_name = ''b.pdf'', file_size = 20, file_type = ''application/pdf'', file_bytes = ''bbbb''\<rparr>,
       \<lparr>reserve = Inl (Rejected ''network''), transfer = Inr (),
        confirm = Inr \<lparr>doc_id = ''dB'', doc_source_type = Uploaded_file, doc_status = ''processing''\<rparr>\<rparr>),
      (\<lparr>file_name = ''c.pdf'', file_size = 30, file_type = ''application/pdf'', file_bytes = ''cccc''\<rparr>,
       \<lparr>reserve = Inr (''https://s3/c'', ''key-c''), transfer = Inr (),
        confirm = Inr \<lparr>doc_id = ''dC'', doc_source_type = Uploaded_file, doc_status = ''processing''\<rparr>\<rparr>)]
     [2, 0, 1, 0, 2, 2, 0] = Some as"
    by blast
  from t as obtain group where
    g: "data (run as initial_state) = (data initial_state)\<lparr>documents := group @ documents (data initial_state)\<rparr>"
    and f: "failure_reports as = [Eff (Toast_error (''Failed to upload '' @ file_name (fst (?items ! 1))))]"
    and m: "mset group =
                mset (concat (map (\<lambda>j. case confirm (snd (?items ! j)) of Inr doc \<Rightarrow> [doc] | Inl e \<Rightarrow> [])
                  (filter (\<lambda>j. j \<noteq> 1) [0..<length ?items])))"
    by blast
  have p: "uploadedDocuments (pipelines ''p1'' (Some ''tok'') ?items [2, 0, 1, 0, 2, 2, 0]) = [\<lparr>doc_id = ''dC'', doc_source_type = Uploaded_file, doc_status = ''processing''\<rparr>, \<lparr>doc_id = ''dA'', doc_source_type = Uploaded_file, doc_status = ''processing''\<rparr>]"
    by code_simp
  have "documents (data (run as initial_state)) = [\<lparr>doc_id = ''dC'', doc_source_type = Uploaded_file, doc_status = ''processing''\<rparr>, \<lparr>doc_id = ''dA'', doc_source_type = Uploaded_file, doc_status = ''processing''\<rparr>]"
    using as 1 p
    by (auto simp: handleDocumentUpload_def Let_def run_effects quiet_def prepend_documents_def
          initial_state_def initial_data_def split: if_splits)
  with as f 4 show ?thesis by simp
qed

text \<open>
  C3 (publish rollback-safety). When the identity is present, settings are loaded and
  the remote \<^verbatim>\<open>put\<close> fails, the settings afterwards are the settings held before
  the call, the whole state is the state before, and the one failure reported is the
  toast \<open>Failed to save settings!\<close>, after which publish can be invoked again.
\<close>

theorem handlePublishSettings_failure_keeps_settings:
  assumes "\<not> absent userId" and "settings d = Some s" and "putRes = Inl e"
  shows "settings (data (run (handlePublishSettings userId projectId d tokenRes putRes) st)) =
           settings (data st)
         \<and> run (handlePublishSettings userId projectId d tokenRes putRes) st = st
         \<and> failure_reports (handlePublishSettings userId projectId d tokenRes putRes) =
             [Eff (Toast_error ''Failed to save settings!'')]"
  using assms
  by (auto simp: handlePublishSettings_def failure_reports_def split: sum.splits)

theorem handlePublishSettings_failure_keeps_settings_witness:
  "\<not> absent (Some ''u1'') \<and>
   settings (data (run (handlePublishSettings (Some ''u1'') ''p1''
       \<lparr>project = Some (Project ''p1''), chats = [], documents = [],
        settings = Some [''tone'' \<mapsto> ''casual'']\<rparr>
       (Inr (Some ''tok'')) (Inl (Rejected ''503'')))
     \<lparr>data = \<lparr>project = Some (Project ''p1''), chats = [], documents = [],
              settings = Some [''tone'' \<mapsto> ''casual'']\<rparr>,
      loading = False, error = None, isCreatingChat = False\<rparr>)) =
   Some [''tone'' \<mapsto> ''casual'']"
  using handlePublishSettings_failure_keeps_settings [of "Some ''u1''"
      "\<lparr>project = Some (Project ''p1''), chats = [], documents = [],
        settings = Some [''tone'' \<mapsto> ''casual'']\<rparr>"
      "[''tone'' \<mapsto> ''casual'']" "Inl (Rejected ''503'')" "Rejected ''503''" "''p1''"
      "Inr (Some ''tok'')"
      "\<lparr>data = \<lparr>project = Some (Project ''p1''), chats = [], documents = [],
              settings = Some [''tone'' \<mapsto> ''casual'']\<rparr>,
      loading = False, error = None, isCreatingChat = False\<rparr>"]
  by simp

text \<open>
  C4 (publish guard). Invoked while the settings are null, publish does one thing: it
  reports the failure \<open>Cannot save settings\<close>. It issues no remote call, does not even
  ask for a token, and leaves the state as it was.
\<close>

theorem handlePublishSettings_guard:
  assumes "settings d = None"
  shows "handlePublishSettings userId projectId d tokenRes putRes =
           [Eff (Toast_error ''Cannot save settings'')]
         \<and> calls_of (handlePublishSettings userId projectId d tokenRes putRes) st = []
         \<and> failure_reports (handlePublishSettings userId projectId d tokenRes putRes) =
             [Eff (Toast_error ''Cannot save settings'')]
         \<and> run (handlePublishSettings userId projectId d tokenRes putRes) st = st"
  using assms
  by (auto simp: handlePublishSettings_def failure_reports_def calls_of_def)

theorem handlePublishSettings_guard_witness:
  "settings initial_data = None \<and>
   handlePublishSettings (Some ''u1'') ''p1'' initial_data (Inr (Some ''tok'')) (Inr None) =
     [Eff (Toast_error ''Cannot save settings'')] \<and>
   calls_of (handlePublishSettings (Some ''u1'') ''p1'' initial_data (Inr (Some ''tok'')) (Inr None))
     initial_state = []"
proof -
  have h: "settings initial_data = None"
    by (simp add: initial_data_def)
  from handlePublishSettings_guard [OF h, of "Some ''u1''" "''p1''" "Inr (Some ''tok'')"
      "Inr None" initial_state]
  show ?thesis using h by blast
qed

text \<open>
  C5 (draft absorption and merge). Invoked while the settings are null, the draft
  operation leaves the whole state unchanged, reports no failure and issues no call.
  Invoked on loaded settings \<open>s\<close>, it replaces them by the shallow merge
  \<open>s ++ updates\<close>: every key named in \<open>updates\<close> takes the value given there, every
  other key keeps its value; nothing else in the state changes.
\<close>

theorem handleDraftSettings_absorbs_or_merges:
  "(settings (data st) = None \<longrightarrow>
      run (handleDraftSettings updates) st = st
      \<and> failure_reports (handleDraftSettings updates) = []
      \<and> calls_of (handleDraftSettings updates) st = [])
   \<and> (\<forall>s. settings (data st) = Some s \<longrightarrow>
      run (handleDraftSettings updates) st = st\<lparr>data := (data st)\<lparr>settings := Some (s ++ updates)\<rparr>\<rparr>
      \<and> (\<forall>k. (s ++ updates) k = (case updates k of Some v \<Rightarrow> Some v | None \<Rightarrow> s k))
      \<and> failure_reports (handleDraftSettings updates) = []
      \<and> calls_of (handleDraftSettings updates) st = [])"
  by (auto simp: handleDraftSettings_def draft_updater_def failure_reports_def calls_of_def
        map_add_def split: option.splits)

theorem handleDraftSettings_absorbs_or_merges_witness:
  "run (handleDraftSettings [''tone'' \<mapsto> ''casual'']) initial_state = initial_state \<and>
   run (handleDraftSettings [''tone'' \<mapsto> ''casual''])
     \<lparr>data = \<lparr>project = None, chats = [], documents = [],
              settings = Some [''tone'' \<mapsto> ''formal'', ''lang'' \<mapsto> ''en'']\<rparr>,
      loading = False, error = None, isCreatingChat = False\<rparr> =
     \<lparr>data = \<lparr>project = None, chats = [], documents = [],
              settings = Some [''tone'' \<mapsto> ''casual'', ''lang'' \<mapsto> ''en'']\<rparr>,
      loading = False, error = None, isCreatingChat = False\<rparr>"
  using handleDraftSettings_absorbs_or_merges [of initial_state "[''tone'' \<mapsto> ''casual'']"]
    handleDraftSettings_absorbs_or_merges [of
     "\<lparr>data = \<lparr>project = None, chats = [], documents = [],
              settings = Some [''tone'' \<mapsto> ''formal'', ''lang'' \<mapsto> ''en'']\<rparr>,
      loading = False, error = None, isCreatingChat = False\<rparr>" "[''tone'' \<mapsto> ''casual'']"]
  by (auto simp: initial_state_def initial_data_def fun_eq_iff)

text \<open>
  C6 (insertion ordering). For every prior conversation sequence, after a successful
  create the sequence is the conversation returned by the server followed by the prior
  sequence, element for element in its prior order.
\<close>

theorem handleCreateNewChat_prepends:
  assumes "\<not> absent userId" and "tokenRes = Inr token" and "postRes = Inr savedChat"
  shows "chats (data (run (handleCreateNewChat userId projectId now tokenRes postRes) st)) =
           savedChat # chats (data st)"
  using assms
  by (simp add: handleCreateNewChat_def quiet_def prepend_chat_def)

theorem handleCreateNewChat_prepends_witness:
  "\<not> absent (Some ''u1'') \<and>
   chats (data (run (handleCreateNewChat (Some ''u1'') ''p1'' 1700000004321 (Inr (Some ''tok''))
       (Inr \<lparr>chat_id = ''c9'', chat_title = ''Chat #4321'', chat_project_id = ''p1''\<rparr>))
     \<lparr>data = \<lparr>project = None,
              chats = [\<lparr>chat_id = ''c1'', chat_title = ''a'', chat_project_id = ''p1''\<rparr>,
                       \<lparr>chat_id = ''c2'', chat_title = ''b'', chat_project_id = ''p1''\<rparr>],
              documents = [], settings = None\<rparr>,
      loading = False, error = None, isCreatingChat = False\<rparr>)) =
   [\<lparr>chat_id = ''c9'', chat_title = ''Chat #4321'', chat_project_id = ''p1''\<rparr>,
    \<lparr>chat_id = ''c1'', chat_title = ''a'', chat_project_id = ''p1''\<rparr>,
    \<lparr>chat_id = ''c2'', chat_title = ''b'', chat_project_id = ''p1''\<rparr>]"
  using handleCreateNewChat_prepends [of "Some ''u1''" "Inr (Some ''tok'')" "Some ''tok''"
      "Inr \<lparr>chat_id = ''c9'', chat_title = ''Chat #4321'', chat_project_id = ''p1''\<rparr>"
      "\<lparr>chat_id = ''c9'', chat_title = ''Chat #4321'', chat_project_id = ''p1''\<rparr>"
      "''p1''" 1700000004321
      "\<lparr>data = \<lparr>project = None,
              chats = [\<lparr>chat_id = ''c1'', chat_title = ''a'', chat_project_id = ''p1''\<rparr>,
                       \<lparr>chat_id = ''c2'', chat_title = ''b'', chat_project_id = ''p1''\<rparr>],
              documents = [], settings = None\<rparr>,
      loading = False, error = None, isCreatingChat = False\<rparr>"]
  by simp

lemma filter_absent_id: "x \<notin> f ` set xs \<Longrightarrow> filter (\<lambda>y. f y \<noteq> x) xs = xs"
  by (induction xs) auto

text \<open>
  C7 (deleting an id that is not there). For every conversation sequence and every id
  that no conversation of it carries, a delete that succeeds remotely leaves the whole
  state unchanged and reports no failure; likewise for the document sequence.
\<close>

theorem delete_absent_id_unchanged:
  "(\<not> absent userId \<and> tokenRes = Inr token \<and> deleteRes = Inr u
      \<and> chatId \<notin> chat_id ` set (chats (data st)) \<longrightarrow>
      run (handleDeleteChat userId chatId tokenRes deleteRes) st = st
      \<and> failure_reports (handleDeleteChat userId chatId tokenRes deleteRes) = [])
   \<and> (\<not> absent userId \<and> tokenRes = Inr token \<and> deleteRes = Inr u
      \<and> documentId \<notin> doc_id ` set (documents (data st)) \<longrightarrow>
      run (handleDocumentDelete userId projectId documentId tokenRes deleteRes) st = st
      \<and> failure_reports (handleDocumentDelete userId projectId documentId tokenRes deleteRes) = [])"
  by (auto simp: handleDeleteChat_def handleDocumentDelete_def quiet_def remove_chat_def
        remove_document_def failure_reports_def filter_absent_id)

theorem delete_absent_id_unchanged_witness:
  "run (handleDeleteChat (Some ''u1'') ''c7'' (Inr (Some ''tok'')) (Inr ()))
     \<lparr>data = \<lparr>project = None,
              chats = [\<lparr>chat_id = ''c1'', chat_title = ''a'', chat_project_id = ''p1''\<rparr>],
              documents = [\<lparr>doc_id = ''d1'', doc_source_type = Url_sourced, doc_status = ''ok''\<rparr>],
              settings = None\<rparr>,
      loading = False, error = None, isCreatingChat = False\<rparr> =
     \<lparr>data = \<lparr>project = None,
              chats = [\<lparr>chat_id = ''c1'', chat_title = ''a'', chat_project_id = ''p1''\<rparr>],
              documents = [\<lparr>doc_id = ''d1'', doc_source_type = Url_sourced, doc_status = ''ok''\<rparr>],
              settings = None\<rparr>,
      loading = False, error = None, isCreatingChat = False\<rparr> \<and>
   run (handleDocumentDelete (Some ''u1'') ''p1'' ''d7'' (Inr (Some ''tok'')) (Inr ()))
     \<lparr>data = \<lparr>project = None,
              chats = [\<lparr>chat_id = ''c1'', chat_title = ''a'', chat_project_id = ''p1''\<rparr>],
              documents = [\<lparr>doc_id = ''d1'', doc_source_type = Url_sourced, doc_status = ''ok''\<rparr>],
              settings = None\<rparr>,
      loading = False, error = None, isCreatingChat = False\<rparr> =
     \<lparr>data = \<lparr>project = None,
              chats = [\<lparr>chat_id = ''c1'', chat_title = ''a'', chat_project_id = ''p1''\<rparr>],
              documents = [\<lparr>doc_id = ''d1'', doc_source_type = Url_sourced, doc_status = ''ok''\<rparr>],
              settings = None\<rparr>,
      loading = False, error = None, isCreatingChat = False\<rparr>"
  using delete_absent_id_unchanged [of "Some ''u1''" "Inr (Some ''tok'')" "Some ''tok''" "Inr ()" "()"
      "''c7''"
      "\<lparr>data = \<lparr>project = None,
              chats = [\<lparr>chat_id = ''c1'', chat_title = ''a'', chat_project_id = ''p1''\<rparr>],
              documents = [\<lparr>doc_id = ''d1'', doc_source_type = Url_sourced, doc_status = ''ok''\<rparr>],
              settings = None\<rparr>,
      loading = False, error = None, isCreatingChat = False\<rparr>" "''d7''" "''p1''"]
  by simp

text \<open>
  C8, as stated, fails: the prepend of \<^verbatim>\<open>handleCreateNewChat\<close> does not look at the
  ids already present, so a conversation that the server returns under an id already in
  the sequence is inserted a second time.
\<close>

theorem prepend_duplicate_id_counterexample:
  "distinct (map chat_id
     [\<lparr>chat_id = ''c1'', chat_title = ''Chat #1'', chat_project_id = ''p1''\<rparr>]) \<and>
   \<not> distinct (map chat_id (chats (data (run
       (handleCreateNewChat (Some ''u1'') ''p1'' 1 (Inr (Some ''tok''))
          (Inr \<lparr>chat_id = ''c1'', chat_title = ''Chat #1'', chat_project_id = ''p1''\<rparr>))
       \<lparr>data = \<lparr>project = None,
                chats = [\<lparr>chat_id = ''c1'', chat_title = ''Chat #1'', chat_project_id = ''p1''\<rparr>],
                documents = [], settings = None\<rparr>,
        loading = False, error = None, isCreatingChat = False\<rparr>))))"
  by (simp add: handleCreateNewChat_def quiet_def prepend_chat_def)

text \<open>
  C8, amended. On a sequence whose ids are unique, a prepend (create, add-from-url)
  keeps them unique exactly when the id returned by the server is not yet in the
  sequence; the batch prepend of an upload keeps them unique exactly when the returned
  documents carry pairwise different ids, none of them in the sequence; a remove
  (delete) always keeps them unique. No merge touches the other sequence.
\<close>

theorem merges_keep_ids_unique_when_fresh:
  "(distinct (map chat_id (chats prev)) \<longrightarrow>
      distinct (map chat_id (chats (prepend_chat savedChat prev))) =
        (chat_id savedChat \<notin> chat_id ` set (chats prev)))
   \<and> (distinct (map doc_id (documents prev)) \<longrightarrow>
      distinct (map doc_id (documents (prepend_document newDocument prev))) =
        (doc_id newDocument \<notin> doc_id ` set (documents prev)))
   \<and> (distinct (map doc_id (documents prev)) \<longrightarrow>
      distinct (map doc_id (documents (prepend_documents uploaded prev))) =
        (distinct (map doc_id uploaded) \<and>
         doc_id ` set uploaded \<inter> doc_id ` set (documents prev) = {}))
   \<and> (distinct (map chat_id (chats prev)) \<longrightarrow>
      distinct (map chat_id (chats (remove_chat chatId prev))))
   \<and> (distinct (map doc_id (documents prev)) \<longrightarrow>
      distinct (map doc_id (documents (remove_document documentId prev))))
   \<and> documents (prepend_chat savedChat prev) = documents prev
   \<and> documents (remove_chat chatId prev) = documents prev
   \<and> chats (prepend_document newDocument prev) = chats prev
   \<and> chats (prepend_documents uploaded prev) = chats prev
   \<and> chats (remove_document documentId prev) = chats prev"
  by (auto simp: prepend_chat_def prepend_document_def prepend_documents_def remove_chat_def
        remove_document_def distinct_map_filter)

theorem merges_keep_ids_unique_when_fresh_witness:
  "distinct (map doc_id (documents
      (prepend_documents
         [\<lparr>doc_id = ''d2'', doc_source_type = Uploaded_file, doc_status = ''new''\<rparr>,
          \<lparr>doc_id = ''d3'', doc_source_type = Uploaded_file, doc_status = ''new''\<rparr>]
         \<lparr>project = None,
          chats = [\<lparr>chat_id = ''c1'', chat_title = ''a'', chat_project_id = ''p1''\<rparr>],
          documents = [\<lparr>doc_id = ''d1'', doc_source_type = Url_sourced, doc_status = ''ok''\<rparr>],
          settings = None\<rparr>))) \<and>
   distinct (map chat_id (chats
      (remove_chat ''c1''
         \<lparr>project = None,
          chats = [\<lparr>chat_id = ''c1'', chat_title = ''a'', chat_project_id = ''p1''\<rparr>],
          documents = [\<lparr>doc_id = ''d1'', doc_source_type = Url_sourced, doc_status = ''ok''\<rparr>],
          settings = None\<rparr>)))"
  using merges_keep_ids_unique_when_fresh [of
      "\<lparr>project = None,
          chats = [\<lparr>chat_id = ''c1'', chat_title = ''a'', chat_project_id = ''p1''\<rparr>],
          documents = [\<lparr>doc_id = ''d1'', doc_source_type = Url_sourced, doc_status = ''ok''\<rparr>],
          settings = None\<rparr>"
      "\<lparr>chat_id = ''c2'', chat_title = ''b'', chat_project_id = ''p1''\<rparr>"
      "\<lparr>doc_id = ''d2'', doc_source_type = Uploaded_file, doc_status = ''new''\<rparr>"
      "[\<lparr>doc_id = ''d2'', doc_source_type = Uploaded_file, doc_status = ''new''\<rparr>,
        \<lparr>doc_id = ''d3'', doc_source_type = Uploaded_file, doc_status = ''new''\<rparr>]"
      "''c1''" "''d1''"]
  by simp

text \<open>
  C9, as stated, fails: invoked without an identity, \<^verbatim>\<open>handleCreateNewChat\<close> returns
  at its guard and reports no failure of any kind.
\<close>

theorem absent_identity_no_error_counterexample:
  "absent None \<and>
   failure_reports (handleCreateNewChat None ''p1'' 1 (Inr (Some ''tok''))
      (Inr \<lparr>chat_id = ''c1'', chat_title = ''Chat #1'', chat_project_id = ''p1''\<rparr>)) = []"
  by (simp add: handleCreateNewChat_def failure_reports_def)

text \<open>
  C9, amended. Invoked while the caller's identity is absent, no operation of this
  layer issues a remote call or asks for a token. Load, create, both deletes, upload and
  add-from-url report no failure at all; publish reports the failure
  \<open>Cannot save settings\<close>; draft never consults the identity, issues no call and
  reports no failure.
\<close>

theorem absent_identity_no_remote_call:
  assumes "absent userId"
  shows "calls_of (loadAllData userId projectId tokenRes projectRes chatsRes documentsRes settingsRes) st = []
    \<and> calls_of (handleCreateNewChat userId projectId now tokenRes chatRes) st = []
    \<and> calls_of (handleDeleteChat userId chatId tokenRes deleteRes) st = []
    \<and> (\<exists>as. handleDocumentUpload userId projectId tokenRes items schedule = Some as
          \<and> calls_of as st = [] \<and> failure_reports as = [])
    \<and> calls_of (handleDocumentDelete userId projectId documentId tokenRes deleteRes) st = []
    \<and> calls_of (handleUrlAdd userId projectId url tokenRes documentRes) st = []
    \<and> calls_of (handlePublishSettings userId projectId d tokenRes putRes) st = []
    \<and> failure_reports (loadAllData userId projectId tokenRes projectRes chatsRes documentsRes settingsRes) = []
    \<and> failure_reports (handleCreateNewChat userId projectId now tokenRes chatRes) = []
    \<and> failure_reports (handleDeleteChat userId chatId tokenRes deleteRes) = []
    \<and> failure_reports (handleDocumentDelete userId projectId documentId tokenRes deleteRes) = []
    \<and> failure_reports (handleUrlAdd userId projectId url tokenRes documentRes) = []
    \<and> failure_reports (handlePublishSettings userId projectId d tokenRes putRes) =
         [Eff (Toast_error ''Cannot save settings'')]
    \<and> calls_of (handleDraftSettings updates) st = []
    \<and> failure_reports (handleDraftSettings updates) = []"
  using assms
  by (simp add: loadAllData_def handleCreateNewChat_def handleDeleteChat_def
        handleDocumentUpload_def handleDocumentDelete_def handleUrlAdd_def
        handlePublishSettings_def handleDraftSettings_def draft_updater_def
        calls_of_def failure_reports_def split: option.splits)

theorem absent_identity_no_remote_call_witness:
  "absent (Some '''') \<and>
   calls_of (handleCreateNewChat (Some '''') ''p1'' 1 (Inr (Some ''tok''))
      (Inr \<lparr>chat_id = ''c1'', chat_title = ''Chat #1'', chat_project_id = ''p1''\<rparr>)) initial_state = [] \<and>
   failure_reports (handlePublishSettings (Some '''') ''p1'' initial_data (Inr (Some ''tok''))
      (Inr None)) = [Eff (Toast_error ''Cannot save settings'')]"
proof -
  have h: "absent (Some '''')" by simp
  from absent_identity_no_remote_call [OF h, where projectId = "''p1''" and now = 1
      and tokenRes = "Inr (Some ''tok'')" and st = initial_state
      and chatRes = "Inr \<lparr>chat_id = ''c1'', chat_title = ''Chat #1'', chat_project_id = ''p1''\<rparr>"
      and d = initial_data and putRes = "Inr None"]
  show ?thesis using h by blast
qed

text \<open>
  C10 (silent guard). For create-chat, delete-chat, upload-documents, delete-document
  and add-from-url: if the identity is absent the handler performs no step at all, so
  no remote call is issued, the state is unchanged and no failure is reported.
\<close>

theorem absent_identity_returns_immediately:
  assumes "absent userId"
  shows "(let as = handleCreateNewChat userId projectId now tokenRes chatRes
          in as = [] \<and> calls_of as st = [] \<and> run as st = st \<and> failure_reports as = [])
    \<and> (let as = handleDeleteChat userId chatId tokenRes deleteRes
          in as = [] \<and> calls_of as st = [] \<and> run as st = st \<and> failure_reports as = [])
    \<and> (\<exists>as. handleDocumentUpload userId projectId tokenRes items schedule = Some as
          \<and> as = [] \<and> calls_of as st = [] \<and> run as st = st \<and> failure_reports as = [])
    \<and> (let as = handleDocumentDelete userId projectId documentId tokenRes deleteRes
          in as = [] \<and> calls_of as st = [] \<and> run as st = st \<and> failure_reports as = [])
    \<and> (let as = handleUrlAdd userId projectId url tokenRes documentRes
          in as = [] \<and> calls_of as st = [] \<and> run as st = st \<and> failure_reports as = [])"
  using assms
  by (simp add: handleCreateNewChat_def handleDeleteChat_def
        handleDocumentUpload_def handleDocumentDelete_def handleUrlAdd_def
        calls_of_def failure_reports_def)

theorem absent_identity_returns_immediately_witness:
  "absent None \<and>
   run (handleDeleteChat None ''c1'' (Inr (Some ''tok'')) (Inr ()))
     \<lparr>data = \<lparr>project = None,
              chats = [\<lparr>chat_id = ''c1'', chat_title = ''a'', chat_project_id = ''p1''\<rparr>],
              documents = [], settings = None\<rparr>,
      loading = False, error = None, isCreatingChat = False\<rparr> =
     \<lparr>data = \<lparr>project = None,
              chats = [\<lparr>chat_id = ''c1'', chat_title = ''a'', chat_project_id = ''p1''\<rparr>],
              documents = [], settings = None\<rparr>,
      loading = False, error = None, isCreatingChat = False\<rparr> \<and>
   handleDocumentUpload None ''p1'' (Inr (Some ''tok'')) [] [] = Some []"
proof -
  have h: "absent None" by simp
  from absent_identity_returns_immediately [OF h, where chatId = "''c1''"
      and tokenRes = "Inr (Some ''tok'')" and deleteRes = "Inr ()" and projectId = "''p1''"
      and items = "[]" and schedule = "[]"
      and st = "\<lparr>data = \<lparr>project = None,
              chats = [\<lparr>chat_id = ''c1'', chat_title = ''a'', chat_project_id = ''p1''\<rparr>],
              documents = [], settings = None\<rparr>,
      loading = False, error = None, isCreatingChat = False\<rparr>"]
  show ?thesis using h by (simp add: Let_def)
qed

end
